theory Spec2Isabelle
  imports Complex_Main
begin

section \<open>PRISM pipeline: implausibility cut-offs, analysis and construction\<close>

text \<open>
  A shallow embedding of the controller side of \<^verbatim>\<open>prism/pipeline.py\<close>
  (class \<^verbatim>\<open>Pipeline\<close>) and of \<^verbatim>\<open>prism/modellink/gaussian_link.py\<close>.

  Python floats are modelled as \<^typ>\<open>real\<close>: the cut-off code only copies and
  compares them, which is exact; rounding, \<^verbatim>\<open>inf\<close> and \<^verbatim>\<open>nan\<close> are outside the
  model. Python and numpy exceptions are values of the type \<open>error\<close>.
\<close>

subsection \<open>Errors\<close>

datatype error =
    ValueError
  | IndexError
  | RequestError
  | KeyError
  | ZeroDivisionError
  | UnboundLocalError
  | NotImplementedError
  | KeyboardInterrupt

subsection \<open>Completion of the implausibility cut-off list\<close>

text \<open>
  Modelled from the spec: \<^verbatim>\<open>check_nneg_float\<close> lives in \<^verbatim>\<open>prism/_internal.py\<close>,
  which is not among the sources. The spec asks for cut-offs and discrepancy variances
  to be non-negative floats and for anything else to be rejected as invalid input; on
  \<^typ>\<open>real\<close> only the sign can be wrong. The accepted value is returned.
\<close>

definition check_nneg_float :: "real \<Rightarrow> error + real" where
  "check_nneg_float v = (if v < 0 then Inl ValueError else Inr v)"

text \<open>
  The loop \<^verbatim>\<open>for i in range(1, len(impl_cut))\<close> of \<^verbatim>\<open>_get_impl_cut\<close>. It updates
  the list in place, so entry \<open>i - 1\<close> is read after its own completion.
\<close>

function impl_cut_loop :: "nat \<Rightarrow> real list \<Rightarrow> error + real list" where
  "impl_cut_loop i impl_cut =
     (if i < length impl_cut then
        (case check_nneg_float (impl_cut ! i) of
           Inl e \<Rightarrow> Inl e
         | Inr v \<Rightarrow>
             (let cut1 = impl_cut[i := v] in
              if cut1 ! i = 0 then impl_cut_loop (Suc i) (cut1[i := cut1 ! (i - 1)])
              else if cut1 ! (i - 1) \<noteq> 0 \<and> cut1 ! i > cut1 ! (i - 1) then Inl ValueError
              else impl_cut_loop (Suc i) cut1))
      else Inr impl_cut)"
  by pat_completeness auto
termination
  by (relation "measure (\<lambda>(i, impl_cut). length impl_cut - i)") auto

declare impl_cut_loop.simps [simp del]

text \<open>
  The loop \<^verbatim>\<open>for i, impl in enumerate(impl_cut)\<close> with its \<^verbatim>\<open>else\<close> branch:
  the index of the first non-zero entry, counted from \<open>i\<close>, or the \<^verbatim>\<open>ValueError\<close>
  "No non-wildcard implausibility cut-off is provided!".
\<close>

fun first_cut_idx :: "nat \<Rightarrow> real list \<Rightarrow> error + nat" where
  "first_cut_idx i [] = Inl ValueError"
| "first_cut_idx i (impl # rest) = (if impl \<noteq> 0 then Inr i else first_cut_idx (Suc i) rest)"

text \<open>
  The computing part of \<^verbatim>\<open>_get_impl_cut\<close> (lines 1430 to 1448): the completed
  list and \<^verbatim>\<open>cut_idx\<close>. \<^verbatim>\<open>impl_cut[0]\<close> of an empty list raises \<^verbatim>\<open>IndexError\<close>.
\<close>

definition get_impl_cut_list :: "real list \<Rightarrow> error + (real list \<times> nat)" where
  "get_impl_cut_list impl_cut =
     (if impl_cut = [] then Inl IndexError
      else
        (case check_nneg_float (impl_cut ! 0) of
           Inl e \<Rightarrow> Inl e
         | Inr v \<Rightarrow>
             (case impl_cut_loop 1 (impl_cut[0 := v]) of
                Inl e \<Rightarrow> Inl e
              | Inr full \<Rightarrow>
                  (case first_cut_idx 0 full of
                     Inl e \<Rightarrow> Inl e
                   | Inr cut_idx \<Rightarrow> Inr (full, cut_idx)))))"

subsection \<open>The objects: model link, emulator, HDF5 file, pipeline\<close>

text \<open>
  An attribute \<^verbatim>\<open>self._x\<close> of \<^verbatim>\<open>Pipeline\<close> is the field \<open>pl_x\<close>, an attribute of
  the \<^verbatim>\<open>Emulator\<close> object is \<open>em_x\<close>, one of the \<^verbatim>\<open>ModelLink\<close> object is \<open>ml_x\<close>.
  The methods of the user's model are function-valued fields. The lists that the
  pipeline indexes by iteration start with the placeholder \<^verbatim>\<open>[]\<close> of \<^verbatim>\<open>_load_data\<close> at
  index 0 (here \<open>[]\<close> or \<open>0\<close>); no modelled path reads it.
\<close>

type_synonym sample = "real list"

record modellink =
  ml_n_par :: nat
  ml_multi_call :: bool
  ml_call_model :: "nat \<Rightarrow> sample \<Rightarrow> real list"
  ml_call_model_multi :: "nat \<Rightarrow> sample list \<Rightarrow> real list list"
  ml_get_md_var :: "nat \<Rightarrow> nat list \<Rightarrow> error + real list"

record emulator =
  em_emul_i :: nat
  em_emul_type :: string
  em_ccheck :: "string list list"
  em_n_data :: "nat list"
  em_data_val :: "real list list"
  em_data_err :: "real list list"
  em_data_idx :: "nat list list"
  em_sam_set :: "sample list list"

text \<open>
  The HDF5 file is the attribute store of the spec: one group per iteration, holding
  the attributes and the dataset that the pipeline writes. A missing attribute or
  dataset is \<open>None\<close>; reading it raises \<^verbatim>\<open>KeyError\<close>. Groups are created by the
  emulator, and h5py's own failures on a missing group are not modelled. Statistics are
  wall-clock strings; only their keywords are kept.
\<close>

record hdf5_group =
  attr_impl_cut :: "real list option"
  attr_cut_idx :: "nat option"
  attr_prc :: "bool option"
  attr_n_impl_sam :: "nat option"
  attr_n_eval_sam :: "nat option"
  dset_impl_sam :: "sample list option"
  attr_statistics :: "string list"

type_synonym hdf5_file = "nat \<Rightarrow> hdf5_group"

text \<open>
  What a run leaves behind besides its state: the logger messages the claims refer to
  (the format string of the source with its arguments) and the calls of the emulator's
  \<^verbatim>\<open>_evaluate\<close> and of the model.
\<close>

datatype event =
    Log string "nat list"
  | EmulEvaluate nat sample
  | CallModel nat sample
  | MultiCallModel nat "sample list"

record pipeline =
  pl_modellink :: modellink
  pl_emulator :: emulator
  pl_file :: hdf5_file
  pl_prism_file :: "real list option"
  pl_n_sam_init :: nat
  pl_base_eval_sam :: nat
  pl_impl_cut :: "real list list"
  pl_cut_idx :: "nat list"
  pl_n_impl_sam :: "nat list"
  pl_n_eval_sam :: "nat list"
  pl_prc :: nat
  pl_impl_sam :: "sample list"
  pl_trace :: "event list"

text \<open>
  The collaborators that are not among the sources are parameters: the methods of
  \<^verbatim>\<open>Emulator\<close> (\<^verbatim>\<open>prism/emulator.py\<close>) that the pipeline calls, which read and
  write the emulator object and the file, and the Latin hypercube sampler \<^verbatim>\<open>lhd\<close> of
  e13tools (number of samples, number of parameters, constraints).
\<close>

record collaborators =
  get_emul_i :: "emulator \<Rightarrow> int option \<Rightarrow> error + nat"
  evaluate :: "emulator \<Rightarrow> nat \<Rightarrow> sample \<Rightarrow> real list \<times> real list"
  create_new_emulator :: "emulator \<times> hdf5_file \<Rightarrow> error + emulator \<times> hdf5_file"
  prepare_new_iteration :: "nat \<Rightarrow> emulator \<times> hdf5_file \<Rightarrow> error + bool \<times> emulator \<times> hdf5_file"
  construct_iteration :: "nat \<Rightarrow> emulator \<times> hdf5_file \<Rightarrow> error + emulator \<times> hdf5_file"
  save_mod_real_set ::
    "nat \<Rightarrow> sample list \<Rightarrow> real list list \<Rightarrow> nat \<Rightarrow> emulator \<times> hdf5_file \<Rightarrow> emulator \<times> hdf5_file"
  lhd :: "nat \<Rightarrow> nat \<Rightarrow> sample list \<Rightarrow> sample list"

text \<open>
  A procedure returns the exception it raised, if any, together with the state at that
  moment. \<open>and_then\<close> is the sequencing of two statements.
\<close>

type_synonym outcome = "error option \<times> pipeline"

definition and_then :: "outcome \<Rightarrow> (pipeline \<Rightarrow> outcome) \<Rightarrow> outcome" where
  "and_then r f = (case r of (None, s) \<Rightarrow> f s | (Some e, s) \<Rightarrow> (Some e, s))"

definition emit :: "event \<Rightarrow> pipeline \<Rightarrow> pipeline" where
  "emit ev s = s\<lparr>pl_trace := pl_trace s @ [ev]\<rparr>"

subsection \<open>Saving pipeline data\<close>

text \<open>
  An entry of the dict given to \<^verbatim>\<open>_save_data\<close>: the keyword with its data.
  \<open>INVALID_KEYWORD\<close> stands for every other keyword.
\<close>

datatype save_item =
    IMPL_CUT "real list" nat
  | IMPL_SAM "sample list"
  | N_EVAL_SAM nat
  | INVALID_KEYWORD

text \<open>
  One pass of the loop over the dict. \<^verbatim>\<open>xs[emul_i] = v\<close> raises \<^verbatim>\<open>IndexError\<close>
  beyond the end of the list and the handler appends instead. For \<^verbatim>\<open>impl_sam\<close> the
  dataset is created, or deleted and created again: either way it holds the new data.
\<close>

fun save_data_item :: "save_item \<Rightarrow> pipeline \<Rightarrow> outcome" where
  "save_data_item (IMPL_CUT data0 data1) s =
     (let emul_i = em_emul_i (pl_emulator s);
          s1 =
            (if emul_i < length (pl_impl_cut s) then
               (if emul_i < length (pl_cut_idx s) then
                  s\<lparr>pl_impl_cut := (pl_impl_cut s)[emul_i := data0],
                    pl_cut_idx := (pl_cut_idx s)[emul_i := data1]\<rparr>
                else
                  s\<lparr>pl_impl_cut := (pl_impl_cut s)[emul_i := data0] @ [data0],
                    pl_cut_idx := pl_cut_idx s @ [data1]\<rparr>)
             else
               s\<lparr>pl_impl_cut := pl_impl_cut s @ [data0], pl_cut_idx := pl_cut_idx s @ [data1]\<rparr>)
      in (None, s1\<lparr>pl_file := (pl_file s1)(emul_i :=
            (pl_file s1 emul_i)\<lparr>attr_impl_cut := Some data0, attr_cut_idx := Some data1\<rparr>)\<rparr>))"
| "save_data_item (IMPL_SAM data) s =
     (let emul_i = em_emul_i (pl_emulator s);
          n_impl_sam = length data;
          prc = (if n_impl_sam \<noteq> 0 then 1 else 0);
          s1 =
            (if emul_i < length (pl_n_impl_sam s) then
               s\<lparr>pl_n_impl_sam := (pl_n_impl_sam s)[emul_i := n_impl_sam]\<rparr>
             else s\<lparr>pl_n_impl_sam := pl_n_impl_sam s @ [n_impl_sam]\<rparr>);
          s2 = s1\<lparr>pl_file := (pl_file s1)(emul_i :=
                 (pl_file s1 emul_i)\<lparr>dset_impl_sam := Some data\<rparr>)\<rparr>;
          s3 = s2\<lparr>pl_prc := prc, pl_impl_sam := data\<rparr>
      in (None, s3\<lparr>pl_file := (pl_file s3)(emul_i :=
            (pl_file s3 emul_i)\<lparr>attr_prc := Some (prc \<noteq> 0),
                                  attr_n_impl_sam := Some n_impl_sam\<rparr>)\<rparr>))"
| "save_data_item (N_EVAL_SAM data) s =
     (let emul_i = em_emul_i (pl_emulator s);
          s1 =
            (if emul_i < length (pl_n_eval_sam s) then
               s\<lparr>pl_n_eval_sam := (pl_n_eval_sam s)[emul_i := data]\<rparr>
             else s\<lparr>pl_n_eval_sam := pl_n_eval_sam s @ [data]\<rparr>)
      in (None, s1\<lparr>pl_file := (pl_file s1)(emul_i :=
            (pl_file s1 emul_i)\<lparr>attr_n_eval_sam := Some data\<rparr>)\<rparr>))"
| "save_data_item INVALID_KEYWORD s = (Some ValueError, s)"

fun save_data :: "save_item list \<Rightarrow> pipeline \<Rightarrow> outcome" where
  "save_data [] s = (None, s)"
| "save_data (item # data_dict) s =
     (case save_data_item item s of
        (Some e, s1) \<Rightarrow> (Some e, s1)
      | (None, s1) \<Rightarrow> save_data data_dict s1)"

text \<open>\<^verbatim>\<open>_save_statistics\<close>: the keywords written to the statistics of an iteration.\<close>

definition save_statistics :: "nat \<Rightarrow> string list \<Rightarrow> pipeline \<Rightarrow> pipeline" where
  "save_statistics emul_i keywords s =
     s\<lparr>pl_file := (pl_file s)(emul_i :=
         (pl_file s emul_i)\<lparr>attr_statistics :=
            remdups (attr_statistics (pl_file s emul_i) @ keywords)\<rparr>)\<rparr>"

subsection \<open>Storing the completed cut-off list\<close>

text \<open>
  \<^verbatim>\<open>_get_default_parameters\<close> gives \<^verbatim>\<open>'impl_cut': '[0, 4.0, 3.8, 3.5]'\<close>; the
  entry of the PRISM parameters file, when there is one, replaces it. \<open>pl_prism_file\<close>
  is that entry after \<^verbatim>\<open>convert_str_seq\<close> and \<^verbatim>\<open>float\<close>.
\<close>

definition default_impl_cut :: "real list" where
  "default_impl_cut = [0, 4.0, 3.8, 3.5]"

text \<open>
  \<^verbatim>\<open>_get_impl_cut(obj, impl_cut, temp)\<close>: the completed list and \<^verbatim>\<open>cut_idx\<close> are
  appended in memory when \<^verbatim>\<open>temp\<close> holds and saved to the file otherwise.
\<close>

definition get_impl_cut :: "real list \<Rightarrow> bool \<Rightarrow> pipeline \<Rightarrow> outcome" where
  "get_impl_cut impl_cut temp obj =
     (case get_impl_cut_list impl_cut of
        Inl e \<Rightarrow> (Some e, obj)
      | Inr (full, idx) \<Rightarrow>
          if temp then
            (None, obj\<lparr>pl_impl_cut := pl_impl_cut obj @ [full],
                       pl_cut_idx := pl_cut_idx obj @ [idx]\<rparr>)
          else save_data [IMPL_CUT full idx] obj)"

definition get_impl_par :: "bool \<Rightarrow> pipeline \<Rightarrow> outcome" where
  "get_impl_par temp s =
     get_impl_cut (case pl_prism_file s of None \<Rightarrow> default_impl_cut | Some l \<Rightarrow> l) temp s"

subsection \<open>The implausibility cut-off check\<close>

text \<open>
  The \<^verbatim>\<open>for\<close> loop of \<^verbatim>\<open>_do_impl_check\<close> over
  \<^verbatim>\<open>zip(sorted_impl_val, obj._impl_cut[emul_i])\<close>: it returns at the first pair
  that violates a non-zero cut-off, and its \<^verbatim>\<open>else\<close> branch reports success.
\<close>

fun impl_check_loop :: "(real \<times> real) list \<Rightarrow> bool" where
  "impl_check_loop [] = True"
| "impl_check_loop ((impl_val, cut_val) # rest) =
     (if cut_val \<noteq> 0 \<and> impl_val > cut_val then False else impl_check_loop rest)"

text \<open>
  \<^verbatim>\<open>_do_impl_check(obj, emul_i, uni_impl_val)\<close>. The values are sorted in descending
  order (\<^verbatim>\<open>np.flip(np.sort(...))\<close>); reading the sorted values at \<^verbatim>\<open>cut_idx\<close>
  raises \<^verbatim>\<open>IndexError\<close> when there are too few of them, before the loop starts.
  The result is the pair of the source, its first component as a truth value.
\<close>

definition do_impl_check :: "pipeline \<Rightarrow> nat \<Rightarrow> real list \<Rightarrow> error + bool \<times> real" where
  "do_impl_check obj emul_i uni_impl_val =
     (let sorted_impl_val = rev (sort uni_impl_val) in
      if emul_i < length (pl_cut_idx obj) then
        (if pl_cut_idx obj ! emul_i < length sorted_impl_val then
           (let impl_cut_val = sorted_impl_val ! (pl_cut_idx obj ! emul_i) in
            if emul_i < length (pl_impl_cut obj) then
              Inr (impl_check_loop (zip sorted_impl_val (pl_impl_cut obj ! emul_i)),
                   impl_cut_val)
            else Inl IndexError)
         else Inl IndexError)
      else Inl IndexError)"

subsection \<open>Model discrepancy variance and univariate implausibility\<close>

text \<open>The loop \<^verbatim>\<open>for value in md_var: check_nneg_float(value, 'md_var')\<close>.\<close>

fun check_md_var :: "real list \<Rightarrow> error option" where
  "check_md_var [] = None"
| "check_md_var (v # rest) =
     (case check_nneg_float v of Inl e \<Rightarrow> Some e | Inr _ \<Rightarrow> check_md_var rest)"

text \<open>
  \<^verbatim>\<open>_get_md_var\<close>: the variances of the model link, or, when its
  \<^verbatim>\<open>get_md_var\<close> raises \<^verbatim>\<open>NotImplementedError\<close>, the square of a sixth of every
  data value. Any other exception of the model link propagates.
\<close>

definition get_md_var :: "pipeline \<Rightarrow> nat \<Rightarrow> error + real list" where
  "get_md_var s emul_i =
     (if emul_i < length (em_data_idx (pl_emulator s)) then
        (case
           (case ml_get_md_var (pl_modellink s) emul_i (em_data_idx (pl_emulator s) ! emul_i) of
              Inl e \<Rightarrow>
                if e = NotImplementedError then
                  (if emul_i < length (em_data_val (pl_emulator s)) then
                     Inr (map (\<lambda>v. (v / 6)\<^sup>2) (em_data_val (pl_emulator s) ! emul_i))
                   else Inl IndexError)
                else Inl e
            | Inr md_var \<Rightarrow> Inr md_var)
         of
           Inl e \<Rightarrow> Inl e
         | Inr md_var \<Rightarrow>
             (case check_md_var md_var of Some e \<Rightarrow> Inl e | None \<Rightarrow> Inr md_var))
      else Inl IndexError)"


text \<open>
  \<^verbatim>\<open>_get_uni_impl\<close>. The loop reads index \<open>i\<close> of five sequences for every
  \<open>i\<close> below \<^verbatim>\<open>n_data[emul_i]\<close>, so every one of them must be that long. A
  denominator that is not positive gives \<^verbatim>\<open>inf\<close> or \<^verbatim>\<open>nan\<close> in numpy and is outside
  what the real numbers model.
\<close>

definition get_uni_impl :: "pipeline \<Rightarrow> nat \<Rightarrow> real list \<Rightarrow> real list \<Rightarrow> error + real list" where
  "get_uni_impl s emul_i adj_exp_val adj_var_val =
     (case get_md_var s emul_i of
        Inl e \<Rightarrow> Inl e
      | Inr md_var \<Rightarrow>
          if emul_i < length (em_n_data (pl_emulator s)) then
            (let n = em_n_data (pl_emulator s) ! emul_i in
             if n = 0 then Inr []
             else if emul_i < length (em_data_val (pl_emulator s))
                   \<and> emul_i < length (em_data_err (pl_emulator s))
                   \<and> n \<le> length adj_exp_val
                   \<and> n \<le> length (em_data_val (pl_emulator s) ! emul_i)
                   \<and> n \<le> length adj_var_val
                   \<and> n \<le> length md_var
                   \<and> n \<le> length (em_data_err (pl_emulator s) ! emul_i)
             then
               Inr (map (\<lambda>i. sqrt ((adj_exp_val ! i - em_data_val (pl_emulator s) ! emul_i ! i)\<^sup>2 /
                                    (adj_var_val ! i + md_var ! i
                                     + (em_data_err (pl_emulator s) ! emul_i ! i)\<^sup>2)))
                        [0..<n])
             else Inl IndexError)
          else Inl IndexError)"

subsection \<open>Analysis\<close>

text \<open>\<^verbatim>\<open>_get_n_eval_sam\<close> and \<^verbatim>\<open>_get_eval_sam_set\<close>.\<close>

definition get_n_eval_sam :: "pipeline \<Rightarrow> nat \<Rightarrow> nat" where
  "get_n_eval_sam s emul_i = emul_i * pl_base_eval_sam s * ml_n_par (pl_modellink s)"

definition get_eval_sam_set :: "collaborators \<Rightarrow> pipeline \<Rightarrow> nat \<Rightarrow> error + sample list" where
  "get_eval_sam_set env s emul_i =
     (let n_eval_sam = get_n_eval_sam s emul_i in
      if emul_i < length (em_sam_set (pl_emulator s)) then
        Inr (lhd env n_eval_sam (ml_n_par (pl_modellink s)) (em_sam_set (pl_emulator s) ! emul_i))
      else Inl IndexError)"

text \<open>
  A user interrupt is asynchronous. The model delivers it, if at all, when sample
  number \<open>i\<close> of the evaluation set is about to be evaluated in iteration \<open>j\<close>:
  that is the argument \<open>intr = Some (i, j)\<close>.

  The inner loop \<^verbatim>\<open>for j in range(1, emul_i+1)\<close> of \<^verbatim>\<open>analyze\<close> for one sample:
  \<open>Inr False\<close> is its \<^verbatim>\<open>break\<close>, \<open>Inr True\<close> its \<^verbatim>\<open>else\<close> branch. Every call
  of the emulator's \<^verbatim>\<open>_evaluate\<close> is recorded.
\<close>

fun check_iterations ::
  "collaborators \<Rightarrow> pipeline \<Rightarrow> (nat \<times> nat) option \<Rightarrow> nat \<Rightarrow> sample \<Rightarrow> nat list \<Rightarrow> event list
     \<Rightarrow> (error + bool) \<times> event list" where
  "check_iterations env s intr i par_set [] tr = (Inr True, tr)"
| "check_iterations env s intr i par_set (j # js) tr =
     (if intr = Some (i, j) then (Inl KeyboardInterrupt, tr)
      else
        (let adj_val = evaluate env (pl_emulator s) j par_set;
             tr1 = tr @ [EmulEvaluate j par_set]
         in case get_uni_impl s j (fst adj_val) (snd adj_val) of
              Inl e \<Rightarrow> (Inl e, tr1)
            | Inr uni_impl_val \<Rightarrow>
                (case do_impl_check s j uni_impl_val of
                   Inl e \<Rightarrow> (Inl e, tr1)
                 | Inr r \<Rightarrow>
                     if \<not> fst r then (Inr False, tr1)
                     else check_iterations env s intr i par_set js tr1)))"

text \<open>
  The outer loop \<^verbatim>\<open>for i, par_set in enumerate(eval_sam_set)\<close>: the index of a
  sample that passed every iteration is appended to \<^verbatim>\<open>impl_idx\<close>.
\<close>

fun analyze_samples ::
  "collaborators \<Rightarrow> pipeline \<Rightarrow> (nat \<times> nat) option \<Rightarrow> nat \<Rightarrow> nat \<Rightarrow> sample list \<Rightarrow> nat list
     \<Rightarrow> event list \<Rightarrow> (error + nat list) \<times> event list" where
  "analyze_samples env s intr emul_i i [] impl_idx tr = (Inr impl_idx, tr)"
| "analyze_samples env s intr emul_i i (par_set # rest) impl_idx tr =
     (case check_iterations env s intr i par_set [1..<emul_i + 1] tr of
        (Inl e, tr1) \<Rightarrow> (Inl e, tr1)
      | (Inr ok, tr1) \<Rightarrow>
          analyze_samples env s intr emul_i (Suc i) rest
            (if ok then impl_idx @ [i] else impl_idx) tr1)"

text \<open>
  The body of the \<^verbatim>\<open>try\<close> statement of \<^verbatim>\<open>analyze\<close>: the evaluation sample set, the
  two loops, and the save of \<^verbatim>\<open>eval_sam_set[impl_idx]\<close> and \<^verbatim>\<open>n_eval_sam\<close>. On
  success it returns what the \<^verbatim>\<open>else\<close> branch needs.
\<close>

definition analyze_try ::
  "collaborators \<Rightarrow> (nat \<times> nat) option \<Rightarrow> nat \<Rightarrow> pipeline \<Rightarrow> (error + nat list \<times> nat) \<times> pipeline" where
  "analyze_try env intr emul_i s =
     (case get_eval_sam_set env s emul_i of
        Inl e \<Rightarrow> (Inl e, s)
      | Inr eval_sam_set \<Rightarrow>
          (let n_eval_sam = length eval_sam_set in
           if em_emul_type (pl_emulator s) = ''default'' then
             (case analyze_samples env s intr emul_i 0 eval_sam_set [] (pl_trace s) of
                (Inl e, tr) \<Rightarrow> (Inl e, s\<lparr>pl_trace := tr\<rparr>)
              | (Inr impl_idx, tr) \<Rightarrow>
                  (case save_data [IMPL_SAM (map (\<lambda>k. eval_sam_set ! k) impl_idx),
                                   N_EVAL_SAM n_eval_sam] (s\<lparr>pl_trace := tr\<rparr>) of
                     (Some e, s2) \<Rightarrow> (Inl e, s2)
                   | (None, s2) \<Rightarrow> (Inr (impl_idx, n_eval_sam), s2)))
           else (Inl NotImplementedError, s)))"

text \<open>
  \<^verbatim>\<open>analyze\<close> on the controller. The cut-offs are read and saved before the
  \<^verbatim>\<open>try\<close> statement. \<^verbatim>\<open>KeyboardInterrupt\<close> is caught and logged; every other
  exception propagates. The \<^verbatim>\<open>else\<close> branch divides by \<^verbatim>\<open>n_eval_sam\<close> and saves
  the statistics. \<^verbatim>\<open>details()\<close>, called last, only reads and prints.
\<close>

definition analyze :: "collaborators \<Rightarrow> (nat \<times> nat) option \<Rightarrow> pipeline \<Rightarrow> outcome" where
  "analyze env intr s =
     (case get_emul_i env (pl_emulator s) None of
        Inl e \<Rightarrow> (Some e, s)
      | Inr emul_i \<Rightarrow>
          and_then (get_impl_par False s)
            (\<lambda>s1. case analyze_try env intr emul_i s1 of
                     (Inl e, s2) \<Rightarrow>
                       if e = KeyboardInterrupt then
                         (None, emit (Log ''Emulator system analysis has been interrupted by user.'' []) s2)
                       else (Some e, s2)
                   | (Inr (impl_idx, n_eval_sam), s2) \<Rightarrow>
                       if n_eval_sam = 0 then (Some ZeroDivisionError, s2)
                       else
                         (None, save_statistics emul_i
                            [''tot_analyze_time'', ''avg_emul_eval_rate'',
                             ''par_space_remaining'', ''MPI_comm_size_anal''] s2)))"

subsection \<open>A structural reading of the completion loop\<close>

text \<open>
  The completion loop only ever looks one entry back, so it is the same as a recursion
  over the list that carries the completed previous entry along. The proofs use this
  form; \<open>impl_cut_loop\<close> above is the loop of the source.
\<close>

fun complete_from :: "real \<Rightarrow> real list \<Rightarrow> error + real list" where
  "complete_from prev [] = Inr []"
| "complete_from prev (c # cs) =
     (if c < 0 then Inl ValueError
      else if c = 0 then
        (case complete_from prev cs of Inl e \<Rightarrow> Inl e | Inr r \<Rightarrow> Inr (prev # r))
      else if prev \<noteq> 0 \<and> c > prev then Inl ValueError
      else (case complete_from c cs of Inl e \<Rightarrow> Inl e | Inr r \<Rightarrow> Inr (c # r)))"

subsection \<open>What the analysis is compared with\<close>

text \<open>
  The verdict on one sample in one iteration, as the body of the inner loop computes it
  (lines 1715 to 1722): the emulator's adjusted values, their univariate
  implausibilities, the cut-off check.
\<close>

definition sample_check :: "collaborators \<Rightarrow> pipeline \<Rightarrow> nat \<Rightarrow> sample \<Rightarrow> error + bool" where
  "sample_check env s j par_set =
     (case get_uni_impl s j (fst (evaluate env (pl_emulator s) j par_set))
                            (snd (evaluate env (pl_emulator s) j par_set)) of
        Inl e \<Rightarrow> Inl e
      | Inr uni_impl_val \<Rightarrow>
          (case do_impl_check s j uni_impl_val of Inl e \<Rightarrow> Inl e | Inr r \<Rightarrow> Inr (fst r)))"

text \<open>
  The iterations among \<open>js\<close> in which a sample is to be evaluated when the loop leaves
  at the first iteration that the sample does not pass: those it passes, and the first
  one after them.
\<close>

definition evaluated_iterations ::
  "collaborators \<Rightarrow> pipeline \<Rightarrow> nat list \<Rightarrow> sample \<Rightarrow> nat list" where
  "evaluated_iterations env s js par_set =
     take (Suc (length (takeWhile (\<lambda>j. sample_check env s j par_set = Inr True) js))) js"

subsection \<open>Loading pipeline data\<close>

text \<open>
  The loop of \<^verbatim>\<open>_load_data\<close> over the iterations \<open>1, ..., emul_i\<close>. A group
  without \<^verbatim>\<open>impl_cut\<close> makes the handler take the cut-offs of the parameters file;
  the \<^verbatim>\<open>finally\<close> branch runs in every case, and an exception raised before it is
  raised again after it.
\<close>

fun load_data_loop :: "nat list \<Rightarrow> pipeline \<Rightarrow> outcome" where
  "load_data_loop [] s = (None, s)"
| "load_data_loop (i # rest) s =
     (let emul = pl_file s i;
          r = (case attr_impl_cut emul of
                 None \<Rightarrow> get_impl_par True s
               | Some c \<Rightarrow>
                   (let s1 = s\<lparr>pl_impl_cut := pl_impl_cut s @ [c]\<rparr> in
                    case attr_cut_idx emul of
                      None \<Rightarrow> (Some KeyError, s1)
                    | Some k \<Rightarrow> (None, s1\<lparr>pl_cut_idx := pl_cut_idx s1 @ [k]\<rparr>)))
      in case attr_n_impl_sam emul of
           None \<Rightarrow> (Some KeyError, snd r)
         | Some n \<Rightarrow>
             (let s3 = (snd r)\<lparr>pl_n_impl_sam := pl_n_impl_sam (snd r) @ [n]\<rparr> in
              case attr_n_eval_sam emul of
                None \<Rightarrow> (Some KeyError, s3)
              | Some m \<Rightarrow>
                  (let s4 = s3\<lparr>pl_n_eval_sam := pl_n_eval_sam s3 @ [m]\<rparr> in
                   case fst r of
                     Some e \<Rightarrow> (Some e, s4)
                   | None \<Rightarrow> load_data_loop rest s4)))"

definition load_data :: "pipeline \<Rightarrow> outcome" where
  "load_data s =
     (let s0 = s\<lparr>pl_n_impl_sam := [0], pl_impl_cut := [[]], pl_cut_idx := [0],
                 pl_n_eval_sam := [0]\<rparr>;
          emul_i = em_emul_i (pl_emulator s)
      in if emul_i \<noteq> 0 then
           and_then (load_data_loop [1..<emul_i + 1] s0)
             (\<lambda>s1. case attr_prc (pl_file s1 emul_i) of
                      None \<Rightarrow> (Some KeyError, s1)
                    | Some b \<Rightarrow>
                        (let s2 = s1\<lparr>pl_prc := (if b then 1 else 0)\<rparr> in
                         case dset_impl_sam (pl_file s2 emul_i) of
                           None \<Rightarrow> (Some KeyError, s2)
                         | Some d \<Rightarrow> (None, s2\<lparr>pl_impl_sam := d\<rparr>)))
         else (None, s0))"

subsection \<open>Evaluating the model\<close>

text \<open>
  \<^verbatim>\<open>_evaluate_model\<close> on the controller: the model is called for all samples at
  once or sample by sample, the external realizations are appended, the emulator saves
  the realization set, and the statistics are saved. The average time per sample is
  \<^verbatim>\<open>end_time/n_sam\<close>, a division by zero for an empty sample set. Model outputs are
  kept per sample; exceptions of the user's model are not modelled.
\<close>

definition evaluate_model ::
  "collaborators \<Rightarrow> nat \<Rightarrow> sample list \<Rightarrow> sample list \<Rightarrow> real list list \<Rightarrow> pipeline \<Rightarrow> outcome" where
  "evaluate_model env emul_i sam_set ext_sam_set ext_mod_set s =
     (let s1 = emit (Log ''Evaluating model samples.'' []) s;
          n_sam = length sam_set;
          multi = ml_multi_call (pl_modellink s1);
          mod_set = (if multi then ml_call_model_multi (pl_modellink s1) emul_i sam_set
                     else map (ml_call_model (pl_modellink s1) emul_i) sam_set);
          s2 = s1\<lparr>pl_trace := pl_trace s1 @
                 (if multi then [MultiCallModel emul_i sam_set]
                  else map (CallModel emul_i) sam_set)\<rparr>;
          use_ext_real_set = (if length ext_sam_set \<noteq> 0 then 1 else 0);
          sam_set1 = (if length ext_sam_set \<noteq> 0 then sam_set @ ext_sam_set else sam_set);
          mod_set1 = (if length ext_sam_set \<noteq> 0 then mod_set @ ext_mod_set else mod_set)
      in if emul_i = 1 \<or> em_emul_type (pl_emulator s2) = ''default'' then
           (let ef = save_mod_real_set env emul_i sam_set1 mod_set1 use_ext_real_set
                       (pl_emulator s2, pl_file s2);
                s3 = s2\<lparr>pl_emulator := fst ef, pl_file := snd ef\<rparr>
            in if n_sam = 0 then (Some ZeroDivisionError, s3)
               else
                 (None, emit (Log ''Finished evaluating model samples.'' [])
                    (save_statistics emul_i
                       [''tot_model_eval_time'', ''avg_model_eval_time'', ''MPI_comm_size_model'']
                       s3)))
         else (Some NotImplementedError, s2))"

subsection \<open>Construction\<close>

text \<open>
  The iteration that \<^verbatim>\<open>construct\<close> works on: one past the last iteration when none
  is given, 1 when 1 is given, and otherwise one past what the emulator makes of
  \<^verbatim>\<open>emul_i-1\<close>.
\<close>

definition construct_emul_i :: "collaborators \<Rightarrow> pipeline \<Rightarrow> int option \<Rightarrow> error + nat" where
  "construct_emul_i env s emul_i =
     (case emul_i of
        None \<Rightarrow> Inr (em_emul_i (pl_emulator s) + 1)
      | Some k \<Rightarrow>
          if k = 1 then Inr 1
          else (case get_emul_i env (pl_emulator s) (Some (k - 1)) of
                  Inl e \<Rightarrow> Inl e
                | Inr l \<Rightarrow> Inr (l + 1)))"

text \<open>
  Lines 1843 to 1870: the decision \<^verbatim>\<open>c_from_start\<close>, with the message logged in
  each branch. \<^verbatim>\<open>self._emulator._ccheck[emul_i]\<close> raises \<^verbatim>\<open>IndexError\<close> for an
  iteration that was never started, and the handler decides for a full construction.
\<close>

definition construct_c_from_start :: "nat \<Rightarrow> bool \<Rightarrow> pipeline \<Rightarrow> bool \<times> pipeline" where
  "construct_c_from_start emul_i force s =
     (let s1 = emit (Log ''Checking state of emulator iteration %s.'' [emul_i]) s in
      if force then
        (True, emit (Log ''Emulator iteration %s has been requested to be reconstructed.''
                       [emul_i]) s1)
      else if emul_i < length (em_ccheck (pl_emulator s1)) then
        (if ''mod_real_set'' \<in> set (em_ccheck (pl_emulator s1) ! emul_i) then
           (True, emit (Log (''Emulator iteration %s does not contain evaluated model ''
                             @ ''realization data. Will be constructed from start.'')
                          [emul_i]) s1)
         else
           (False, emit (Log (''Construction of emulator iteration %s was interrupted. ''
                              @ ''Continuing from point of interruption.'')
                           [emul_i]) s1))
      else
        (True, emit (Log ''Emulator iteration %s has not been constructed.'' [emul_i]) s1))"

text \<open>
  Lines 1886 to 1993 on the controller: what is done only when the iteration is
  constructed from the start. \<open>ext_sam_set\<close> and \<open>ext_mod_set\<close> are what
  \<^verbatim>\<open>_get_ext_real_set\<close> makes of \<^verbatim>\<open>ext_init_set\<close>; they are used for iteration 1
  only. With enough external samples no sample set is created for iteration 1, and the
  later use of \<^verbatim>\<open>add_sam_set\<close> raises \<^verbatim>\<open>UnboundLocalError\<close>.
\<close>

definition construct_from_start ::
  "collaborators \<Rightarrow> (nat \<times> nat) option \<Rightarrow> nat \<Rightarrow> sample list \<Rightarrow> real list list \<Rightarrow> pipeline
     \<Rightarrow> outcome" where
  "construct_from_start env intr emul_i ext_sam_set ext_mod_set s =
     (let s1 = emit (Log ''Starting construction of emulator iteration %s.'' [emul_i]) s in
      if emul_i = 1 then
        (case create_new_emulator env (pl_emulator s1, pl_file s1) of
           Inl e \<Rightarrow> (Some e, s1)
         | Inr ef \<Rightarrow>
             and_then (load_data (s1\<lparr>pl_emulator := fst ef, pl_file := snd ef\<rparr>))
               (\<lambda>s2. let n_sam_init = pl_n_sam_init s2 - length ext_sam_set in
                      if n_sam_init \<noteq> 0 then
                        evaluate_model env emul_i
                          (lhd env n_sam_init (ml_n_par (pl_modellink s2)) ext_sam_set)
                          ext_sam_set ext_mod_set s2
                      else (Some UnboundLocalError, s2)))
      else if emul_i - 1 < length (pl_n_eval_sam s1) then
        and_then
          (if pl_n_eval_sam s1 ! (emul_i - 1) = 0 then
             analyze env intr
               (emit (Log (''Previous emulator iteration has not been analyzed. ''
                           @ ''Performing analysis first.'') []) s1)
           else (None, s1))
          (\<lambda>s2. if pl_prc s2 = 0 then
                   (Some RequestError,
                    emit (Log (''No plausible regions were found in the analysis of the ''
                               @ ''previous emulator iteration. Construction is not possible!'')
                            []) s2)
                 else
                   (case prepare_new_iteration env emul_i (pl_emulator s2, pl_file s2) of
                      Inl e \<Rightarrow> (Some e, s2)
                    | Inr r \<Rightarrow>
                        and_then
                          (let s3 = s2\<lparr>pl_emulator := fst (snd r), pl_file := snd (snd r)\<rparr> in
                           if fst r then load_data s3 else (None, s3))
                          (\<lambda>s4. evaluate_model env emul_i (pl_impl_sam s4) [] [] s4)))
      else (Some IndexError, s1))"

text \<open>
  Lines 1995 to 2012: the emulator constructs the iteration, and the iteration is saved
  as not analysed yet.
\<close>

definition construct_finish :: "collaborators \<Rightarrow> nat \<Rightarrow> pipeline \<Rightarrow> outcome" where
  "construct_finish env emul_i s =
     (case construct_iteration env emul_i (pl_emulator s, pl_file s) of
        Inl e \<Rightarrow> (Some e, s)
      | Inr ef \<Rightarrow>
          and_then (save_data [IMPL_SAM [], N_EVAL_SAM 0]
                      (s\<lparr>pl_emulator := fst ef, pl_file := snd ef\<rparr>))
            (\<lambda>s1. (None, emit (Log ''Finished construction of emulator system.'' [])
                            (save_statistics emul_i [''tot_construct_time''] s1))))"

text \<open>
  \<^verbatim>\<open>construct(emul_i, analyze, ext_init_set, force)\<close> on the controller.
  \<open>intr\<^sub>1\<close> is the interrupt of the analysis of the previous iteration, should it
  run, \<open>intr\<^sub>2\<close> that of the analysis at the end.
\<close>

definition construct ::
  "collaborators \<Rightarrow> (nat \<times> nat) option \<Rightarrow> (nat \<times> nat) option \<Rightarrow> int option \<Rightarrow> bool
     \<Rightarrow> sample list \<Rightarrow> real list list \<Rightarrow> bool \<Rightarrow> pipeline \<Rightarrow> outcome" where
  "construct env intr\<^sub>1 intr\<^sub>2 emul_i analyze_arg ext_sam_set ext_mod_set force s =
     (case construct_emul_i env s emul_i of
        Inl e \<Rightarrow> (Some e, s)
      | Inr i \<Rightarrow>
          (let d = construct_c_from_start i force s in
           and_then
             (if fst d then construct_from_start env intr\<^sub>1 i ext_sam_set ext_mod_set (snd d)
              else (None, snd d))
             (\<lambda>s2. and_then (construct_finish env i s2)
                      (\<lambda>s3. if analyze_arg then analyze env intr\<^sub>2 s3
                             else get_impl_par True s3))))"




subsection \<open>A small pipeline for concrete runs\<close>

text \<open>
  The theorems below are exercised on a pipeline with one parameter and one data point
  (observed value 6, no observational error), whose model returns its parameters and
  supplies no discrepancy variance, and whose first iteration is constructed but not
  analysed. The stand-in emulator predicts the parameter vector itself with variance 0,
  knows its iterations by their number, and ticks off the whole check list when it
  constructs an iteration; the stand-in sampler returns the samples 6, 8, 10, ...
\<close>

definition demo_modellink :: modellink where
  "demo_modellink =
     \<lparr>ml_n_par = 1, ml_multi_call = False,
      ml_call_model = (\<lambda>emul_i par_set. par_set),
      ml_call_model_multi = (\<lambda>emul_i sam_set. sam_set),
      ml_get_md_var = (\<lambda>emul_i data_idx. Inl NotImplementedError)\<rparr>"

definition demo_emulator :: emulator where
  "demo_emulator =
     \<lparr>em_emul_i = 1, em_emul_type = ''default'', em_ccheck = [[], []],
      em_n_data = [0, 1], em_data_val = [[], [6]], em_data_err = [[], [0]],
      em_data_idx = [[], [0]], em_sam_set = [[], [[6]]]\<rparr>"

definition demo_group :: hdf5_group where
  "demo_group =
     \<lparr>attr_impl_cut = None, attr_cut_idx = None, attr_prc = Some False,
      attr_n_impl_sam = Some 0, attr_n_eval_sam = Some 0, dset_impl_sam = Some [],
      attr_statistics = []\<rparr>"

definition demo_pipeline :: pipeline where
  "demo_pipeline =
     \<lparr>pl_modellink = demo_modellink, pl_emulator = demo_emulator,
      pl_file = (\<lambda>i. demo_group), pl_prism_file = Some [1],
      pl_n_sam_init = 2, pl_base_eval_sam = 2,
      pl_impl_cut = [[], [1]], pl_cut_idx = [0, 0], pl_n_impl_sam = [0, 0],
      pl_n_eval_sam = [0, 0],
      pl_prc = 0, pl_impl_sam = [], pl_trace = []\<rparr>"


definition demo_env :: collaborators where
  "demo_env =
     \<lparr>get_emul_i = (\<lambda>e k. case k of
          None \<Rightarrow> if em_emul_i e = 0 then Inl RequestError else Inr (em_emul_i e)
        | Some l \<Rightarrow> if 1 \<le> l \<and> l \<le> int (em_emul_i e) then Inr (nat l) else Inl RequestError),
      evaluate = (\<lambda>e j par_set. (par_set, [0])),
      create_new_emulator = (\<lambda>ef. Inr (fst ef\<lparr>em_emul_i := 0, em_ccheck := [[], [''mod_real_set'']]\<rparr>, snd ef)),
      prepare_new_iteration = (\<lambda>i ef. Inr (False, fst ef\<lparr>em_ccheck := em_ccheck (fst ef) @ [[''mod_real_set'']]\<rparr>, snd ef)),
      construct_iteration = (\<lambda>i ef. Inr (fst ef\<lparr>em_emul_i := i, em_ccheck := (em_ccheck (fst ef))[i := []]\<rparr>, snd ef)),
      save_mod_real_set = (\<lambda>i sam_set mod_set use_ext ef.
          (fst ef\<lparr>em_ccheck := (em_ccheck (fst ef))[i := removeAll ''mod_real_set'' (em_ccheck (fst ef) ! i)]\<rparr>, snd ef)),
      lhd = (\<lambda>n n_par constraints. map (\<lambda>k. [6 + 2 * real k]) [0..<n])\<rparr>"



text \<open>
  The pipeline after an analysis of the first iteration that evaluated two samples and
  found none of them plausible; and the same with a second iteration whose construction
  was interrupted after the model realizations were saved, so that the pipeline has
  written nothing to its group yet.
\<close>

definition demo_pipeline_no_region :: pipeline where
  "demo_pipeline_no_region =
     demo_pipeline
       \<lparr>pl_file := (\<lambda>i. demo_group)
          (1 := demo_group\<lparr>attr_impl_cut := Some [1], attr_cut_idx := Some 0,
                            attr_n_eval_sam := Some 2\<rparr>),
        pl_n_eval_sam := [0, 2]\<rparr>"

definition demo_pipeline_no_region_interrupted :: pipeline where
  "demo_pipeline_no_region_interrupted =
     demo_pipeline_no_region
       \<lparr>pl_emulator := demo_emulator\<lparr>em_ccheck := [[], [], [''regression'']]\<rparr>,
        pl_file := (pl_file demo_pipeline_no_region)
          (2 := \<lparr>attr_impl_cut = None, attr_cut_idx = None, attr_prc = None,
                 attr_n_impl_sam = None, attr_n_eval_sam = None, dset_impl_sam = None,
                 attr_statistics = []\<rparr>)\<rparr>"

section \<open>Properties\<close>

subsection \<open>The completion loop and its structural reading\<close>



lemma complete_from_error: "complete_from prev cs = Inl e \<Longrightarrow> e = ValueError"
  by (induction cs arbitrary: prev) (auto split: if_splits sum.splits)


lemma complete_from_nneg:
  "complete_from prev cs = Inr r \<Longrightarrow> \<forall>c\<in>set cs. 0 \<le> c"
  by (induction cs arbitrary: prev r) (auto split: if_splits sum.splits)




lemma first_cut_idx_replicate:
  "first_cut_idx i (replicate m 0 @ r') =
     (case r' of [] \<Rightarrow> Inl ValueError
      | x # _ \<Rightarrow> if x \<noteq> 0 then Inr (i + m) else first_cut_idx (i + m) r')"
  by (induction m arbitrary: i) (auto split: list.splits)








subsection \<open>The cut-off check\<close>

lemma impl_check_loop_iff:
  "impl_check_loop ps \<longleftrightarrow> \<not> (\<exists>k<length ps. snd (ps ! k) \<noteq> 0 \<and> snd (ps ! k) < fst (ps ! k))"
proof (induction ps)
  case Nil
  then show ?case by simp
next
  case (Cons p ps)
  obtain v c where p: "p = (v, c)" by (cases p)
  show ?case
  proof (cases "c \<noteq> 0 \<and> c < v")
    case True
    then have "\<exists>k<length (p # ps). snd ((p # ps) ! k) \<noteq> 0 \<and> snd ((p # ps) ! k) < fst ((p # ps) ! k)"
      using p by (intro exI[of _ 0]) simp
    with True p show ?thesis by simp
  next
    case False
    have "(\<exists>k<length (p # ps). snd ((p # ps) ! k) \<noteq> 0 \<and> snd ((p # ps) ! k) < fst ((p # ps) ! k))
          \<longleftrightarrow> (\<exists>k<length ps. snd (ps ! k) \<noteq> 0 \<and> snd (ps ! k) < fst (ps ! k))"
      using False p by (auto simp: less_Suc_eq_0_disj)
    with False p Cons.IH show ?thesis by auto
  qed
qed

lemma rev_sort3:
  "rev (sort [a, b, c :: real]) ! 0 = max a (max b c)"
  by (auto simp: max_def)

lemma impl_check_loop_single:
  "impl_check_loop (zip (x # ys) [c, 0, 0]) = (\<not> (c \<noteq> 0 \<and> c < x))"
  by (cases ys; cases "tl ys") auto




subsection \<open>Claims about the cut-off list\<close>






subsection \<open>Claims about the cut-off check\<close>

text \<open>
  Claim C3, as amended. For every list of implausibility values that has more than
  \<^verbatim>\<open>cut_idx\<close> entries, the check sorts the values in descending order, fails exactly
  when at some position that both lists have the cut-off is non-zero and the sorted
  value exceeds it, passes otherwise whatever stands at the wildcard positions, and
  returns the sorted value at \<^verbatim>\<open>cut_idx\<close> with its verdict. With fewer values it
  raises \<^verbatim>\<open>IndexError\<close>. (Where the loop stops cannot be seen in its result; the
  verdict is the same as that of the comparison at all positions.)
\<close>

theorem do_impl_check_result:
  assumes "emul_i < length (pl_cut_idx obj)" and "emul_i < length (pl_impl_cut obj)"
  shows "do_impl_check obj emul_i uni_impl_val =
     (if pl_cut_idx obj ! emul_i < length uni_impl_val then
        Inr (\<not> (\<exists>k. k < length uni_impl_val \<and> k < length (pl_impl_cut obj ! emul_i)
                    \<and> pl_impl_cut obj ! emul_i ! k \<noteq> 0
                    \<and> pl_impl_cut obj ! emul_i ! k < rev (sort uni_impl_val) ! k),
             rev (sort uni_impl_val) ! (pl_cut_idx obj ! emul_i))
      else Inl IndexError)"
  using assms by (auto simp: do_impl_check_def impl_check_loop_iff Let_def)

theorem do_impl_check_result_witness:
  "1 < length (pl_cut_idx (demo_pipeline\<lparr>pl_impl_cut := [[], [0, 4.0, 3.8, 3.5]],
                                         pl_cut_idx := [0, 1]\<rparr>))
   \<and> 1 < length (pl_impl_cut (demo_pipeline\<lparr>pl_impl_cut := [[], [0, 4.0, 3.8, 3.5]],
                                            pl_cut_idx := [0, 1]\<rparr>))
   \<and> do_impl_check (demo_pipeline\<lparr>pl_impl_cut := [[], [0, 4.0, 3.8, 3.5]],
                                   pl_cut_idx := [0, 1]\<rparr>) 1 [5.0, 1.0, 4.5]
       = Inr (False, 4.5)"
proof -
  let ?obj = "demo_pipeline\<lparr>pl_impl_cut := [[], [0, 4.0, 3.8, 3.5]], pl_cut_idx := [0, 1]\<rparr>"
  have h1: "1 < length (pl_cut_idx ?obj)" by simp
  have h2: "1 < length (pl_impl_cut ?obj)" by simp
  have s: "rev (sort [5.0, 1.0, 4.5 :: real]) = [5.0, 4.5, 1.0]" by simp
  have v: "\<exists>k. k < length [5.0, 1.0, 4.5 :: real] \<and> k < length (pl_impl_cut ?obj ! 1)
              \<and> pl_impl_cut ?obj ! 1 ! k \<noteq> 0
              \<and> pl_impl_cut ?obj ! 1 ! k < rev (sort [5.0, 1.0, 4.5]) ! k"
    unfolding s by (rule exI[of _ 1]) simp
  from v have nv: "(\<not> (\<exists>k. k < length [5.0, 1.0, 4.5 :: real] \<and> k < length (pl_impl_cut ?obj ! 1)
              \<and> pl_impl_cut ?obj ! 1 ! k \<noteq> 0
              \<and> pl_impl_cut ?obj ! 1 ! k < rev (sort [5.0, 1.0, 4.5]) ! k)) = False"
    by blast
  have lt: "pl_cut_idx ?obj ! 1 < length [5.0, 1.0, 4.5 :: real]" by simp
  have "do_impl_check ?obj 1 [5.0, 1.0, 4.5] =
          Inr (False, rev (sort [5.0, 1.0, 4.5]) ! (pl_cut_idx ?obj ! 1))"
    using do_impl_check_result[OF h1 h2, of "[5.0, 1.0, 4.5]"]
    unfolding nv if_P[OF lt] .
  then have "do_impl_check ?obj 1 [5.0, 1.0, 4.5] = Inr (False, 4.5)"
    unfolding s by simp
  with h1 h2 show ?thesis by blast
qed

text \<open>
  The claim as it was stated fails on a single implausibility value under the default
  cut-offs \<open>[0, 4.0, 3.8, 3.5]\<close>, where \<^verbatim>\<open>cut_idx\<close> is 1: no cut-off is violated, yet
  the check does not pass and returns no value; it raises \<^verbatim>\<open>IndexError\<close>.
\<close>

theorem do_impl_check_short_counterexample:
  "do_impl_check (demo_pipeline\<lparr>pl_impl_cut := [[], [0, 4.0, 3.8, 3.5]],
                                 pl_cut_idx := [0, 1]\<rparr>) 1 [1.0]
     = Inl IndexError"
  by (simp add: do_impl_check_def)

text \<open>
  Claim C4, as amended. With the cut-offs \<open>[3.5, 0, 0]\<close> and \<^verbatim>\<open>cut_idx = 0\<close>, a
  sample of three implausibility values passes the check exactly when its largest
  value is at most 3.5, and the largest value is what the check returns with its
  verdict: the values are sorted in descending order first, so the second and third
  largest meet the wildcards. The sample \<open>[3.6, 1.0, 0.5]\<close> fails, and so does
  \<open>[3.4, 5.0, 5.0]\<close>, whose 5.0 is compared with 3.5.
\<close>

theorem do_impl_check_single_cutoff:
  assumes "emul_i < length (pl_cut_idx obj)" and "emul_i < length (pl_impl_cut obj)"
    and "pl_impl_cut obj ! emul_i = [3.5, 0, 0]" and "pl_cut_idx obj ! emul_i = 0"
  shows "do_impl_check obj emul_i [a, b, c] = Inr (max a (max b c) \<le> 3.5, max a (max b c))
    \<and> do_impl_check obj emul_i [3.6, 1.0, 0.5] = Inr (False, 3.6)
    \<and> do_impl_check obj emul_i [3.4, 5.0, 5.0] = Inr (False, 5.0)"
proof -
  have g: "do_impl_check obj emul_i [x, y, z] = Inr (max x (max y z) \<le> 3.5, max x (max y z))"
    for x y z
  proof -
    obtain u us where us: "rev (sort [x, y, z]) = u # us"
      by (cases "rev (sort [x, y, z])") auto
    then have u: "u = max x (max y z)" using rev_sort3[of x y z] by simp
    have "do_impl_check obj emul_i [x, y, z] =
            Inr (impl_check_loop (zip (u # us) [3.5, 0, 0]), u)"
      using assms us unfolding do_impl_check_def Let_def by simp
    then show ?thesis
      unfolding impl_check_loop_single u by auto
  qed
  show ?thesis
    using g[of a b c] g[of "3.6" "1.0" "0.5"] g[of "3.4" "5.0" "5.0"] by simp
qed

theorem do_impl_check_single_cutoff_witness:
  "1 < length (pl_cut_idx (demo_pipeline\<lparr>pl_impl_cut := [[], [3.5, 0, 0]],
                                         pl_cut_idx := [0, 0]\<rparr>))
   \<and> 1 < length (pl_impl_cut (demo_pipeline\<lparr>pl_impl_cut := [[], [3.5, 0, 0]],
                                            pl_cut_idx := [0, 0]\<rparr>))
   \<and> pl_impl_cut (demo_pipeline\<lparr>pl_impl_cut := [[], [3.5, 0, 0]],
                                 pl_cut_idx := [0, 0]\<rparr>) ! 1 = [3.5, 0, 0]
   \<and> pl_cut_idx (demo_pipeline\<lparr>pl_impl_cut := [[], [3.5, 0, 0]],
                                pl_cut_idx := [0, 0]\<rparr>) ! 1 = 0
   \<and> do_impl_check (demo_pipeline\<lparr>pl_impl_cut := [[], [3.5, 0, 0]],
                                   pl_cut_idx := [0, 0]\<rparr>) 1 [1.0, 3.4, 0.5]
       = Inr (True, 3.4)"
proof -
  let ?obj = "demo_pipeline\<lparr>pl_impl_cut := [[], [3.5, 0, 0]], pl_cut_idx := [0, 0]\<rparr>"
  have h1: "1 < length (pl_cut_idx ?obj)" by simp
  have h2: "1 < length (pl_impl_cut ?obj)" by simp
  have h3: "pl_impl_cut ?obj ! 1 = [3.5, 0, 0]" by simp
  have h4: "pl_cut_idx ?obj ! 1 = 0" by simp
  have "do_impl_check ?obj 1 [1.0, 3.4, 0.5] = Inr (True, 3.4)"
    using do_impl_check_single_cutoff[OF h1 h2 h3 h4, of "1.0" "3.4" "0.5"] by simp
  with h1 h2 h3 h4 show ?thesis by blast
qed

text \<open>
  The claim as it was stated fails on its own second sample: \<open>[3.4, 5.0, 5.0]\<close> is
  sorted to \<open>[5.0, 5.0, 3.4]\<close>, and 5.0 exceeds the cut-off 3.5.
\<close>

theorem do_impl_check_unsorted_counterexample:
  "do_impl_check (demo_pipeline\<lparr>pl_impl_cut := [[], [3.5, 0, 0]], pl_cut_idx := [0, 0]\<rparr>) 1
     [3.4, 5.0, 5.0] = Inr (False, 5.0)"
  by (simp add: do_impl_check_def)




subsection \<open>Claims about the model discrepancy variance\<close>




subsection \<open>Claims about saving the plausible samples\<close>



subsection \<open>The loops of the analysis\<close>


lemma evaluated_iterations_Nil [simp]: "evaluated_iterations env s [] p = []"
  by (simp add: evaluated_iterations_def)




subsection \<open>The state around the analysis\<close>




lemma save_data_impl_sam_n_eval:
  "fst (save_data [IMPL_SAM d, N_EVAL_SAM n] s) = None"
  by (simp add: Let_def)

lemma save_data_impl_sam_n_eval_Some:
  "save_data [IMPL_SAM d, N_EVAL_SAM n] s \<noteq> (Some e, s2)"
  using save_data_impl_sam_n_eval[of d n s] by (metis fst_conv option.distinct(1))

lemma analyze_try_error_state:
  assumes "analyze_try env intr i s1 = (Inl e, s2)"
  shows "s2 = s1\<lparr>pl_trace := pl_trace s2\<rparr>"
  using assms
  unfolding analyze_try_def Let_def
  by (auto split: sum.splits if_splits prod.splits option.splits
        simp: save_data_impl_sam_n_eval_Some simp del: save_data.simps)

lemma analyze_interrupted_state:
  assumes "get_emul_i env (pl_emulator s) None = Inr i"
    and "get_impl_par False s = (None, s1)"
    and "fst (analyze_try env intr i s1) = Inl KeyboardInterrupt"
  shows "analyze env intr s =
           (None, s1\<lparr>pl_trace := pl_trace (snd (analyze_try env intr i s1)) @
                       [Log ''Emulator system analysis has been interrupted by user.'' []]\<rparr>)"
proof -
  obtain s2 where at: "analyze_try env intr i s1 = (Inl KeyboardInterrupt, s2)"
    using assms(3) by (cases "analyze_try env intr i s1") auto
  have s2: "s2 = s1\<lparr>pl_trace := pl_trace s2\<rparr>"
    by (rule analyze_try_error_state[OF at])
  have "analyze env intr s =
          (None, emit (Log ''Emulator system analysis has been interrupted by user.'' []) s2)"
    unfolding analyze_def using assms(1,2) at by (simp add: and_then_def)
  also have "emit (Log ''Emulator system analysis has been interrupted by user.'' []) s2 =
      s1\<lparr>pl_trace := pl_trace s2 @
                       [Log ''Emulator system analysis has been interrupted by user.'' []]\<rparr>"
    unfolding emit_def by (subst (2) s2) simp
  finally show ?thesis using at by simp
qed

lemma analyze_try_interrupt_first:
  assumes "get_eval_sam_set env s1 i = Inr (p # ps)" and "1 \<le> i"
    and "em_emul_type (pl_emulator s1) = ''default''" and "intr = Some (0, 1)"
  shows "analyze_try env intr i s1 = (Inl KeyboardInterrupt, s1)"
proof -
  have u: "[1..<i + 1] = 1 # [2..<i + 1]"
    using assms(2) by (simp add: upt_conv_Cons numeral_2_eq_2 del: upt_Suc)
  have ci: "check_iterations env s1 intr 0 p [1..<i + 1] tr = (Inl KeyboardInterrupt, tr)"
    for tr
    unfolding u using assms(4) by simp
  have as: "analyze_samples env s1 intr i 0 (p # ps) [] (pl_trace s1)
              = (Inl KeyboardInterrupt, pl_trace s1)"
    unfolding analyze_samples.simps ci by simp
  show ?thesis
    unfolding analyze_try_def using assms(1,3)
    by (simp add: as Let_def del: analyze_samples.simps save_data.simps)
qed


subsection \<open>Claims about the analysis\<close>









subsection \<open>Which runs evaluate the model\<close>








lemma and_then_None: "and_then (None, s) f = f s"
  by (simp add: and_then_def)

lemma and_then_Some: "and_then (Some e, s) f = (Some e, s)"
  by (simp add: and_then_def)










lemma save_data_item_frame:
  "pl_emulator (snd (save_data_item item s)) = pl_emulator s
   \<and> (j \<noteq> em_emul_i (pl_emulator s) \<longrightarrow> pl_file (snd (save_data_item item s)) j = pl_file s j)"
  by (cases item) (simp_all add: Let_def)

lemma save_data_frame:
  "pl_emulator (snd (save_data items s)) = pl_emulator s
   \<and> (j \<noteq> em_emul_i (pl_emulator s) \<longrightarrow> pl_file (snd (save_data items s)) j = pl_file s j)"
proof (induction items arbitrary: s)
  case Nil
  then show ?case by simp
next
  case (Cons item items)
  obtain r s1 where i: "save_data_item item s = (r, s1)" by (cases "save_data_item item s")
  have f: "pl_emulator s1 = pl_emulator s"
    "j \<noteq> em_emul_i (pl_emulator s) \<longrightarrow> pl_file s1 j = pl_file s j"
    using save_data_item_frame[of item s j] i by simp_all
  show ?case
    unfolding save_data.simps i using f Cons.IH[of s1] by (cases r) simp_all
qed

lemma get_impl_par_frame:
  "pl_emulator (snd (get_impl_par temp s)) = pl_emulator s
   \<and> (j \<noteq> em_emul_i (pl_emulator s) \<longrightarrow> pl_file (snd (get_impl_par temp s)) j = pl_file s j)"
  unfolding get_impl_par_def get_impl_cut_def
  using save_data_frame[of _ s j]
  by (auto split: sum.splits prod.splits simp del: save_data.simps)

lemma analyze_try_frame:
  "pl_emulator (snd (analyze_try env intr i s)) = pl_emulator s
   \<and> (j \<noteq> em_emul_i (pl_emulator s) \<longrightarrow> pl_file (snd (analyze_try env intr i s)) j = pl_file s j)"
proof (cases "get_eval_sam_set env s i")
  case (Inl e)
  then show ?thesis by (simp add: analyze_try_def)
next
  case (Inr es)
  show ?thesis
  proof (cases "em_emul_type (pl_emulator s) = ''default''")
    case False
    with Inr show ?thesis by (simp add: analyze_try_def)
  next
    case True
    obtain r tr where a: "analyze_samples env s intr i 0 es [] (pl_trace s) = (r, tr)"
      by (cases "analyze_samples env s intr i 0 es [] (pl_trace s)")
    show ?thesis
    proof (cases r)
      case (Inl e)
      with Inr True a show ?thesis by (simp add: analyze_try_def)
    next
      case (Inr idx)
      obtain r2 s2 where sd: "save_data [IMPL_SAM (map (\<lambda>k. es ! k) idx), N_EVAL_SAM (length es)]
                                (s\<lparr>pl_trace := tr\<rparr>) = (r2, s2)"
        by (cases "save_data [IMPL_SAM (map (\<lambda>k. es ! k) idx), N_EVAL_SAM (length es)]
                                (s\<lparr>pl_trace := tr\<rparr>)")
      have "pl_emulator s2 = pl_emulator s"
        "j \<noteq> em_emul_i (pl_emulator s) \<longrightarrow> pl_file s2 j = pl_file s j"
        using save_data_frame[of "[IMPL_SAM (map (\<lambda>k. es ! k) idx), N_EVAL_SAM (length es)]"
            "s\<lparr>pl_trace := tr\<rparr>" j] sd by simp_all
      with \<open>get_eval_sam_set env s i = Inr es\<close> True a Inr sd show ?thesis
        by (cases r2) (simp_all add: analyze_try_def Let_def del: save_data.simps)
    qed
  qed
qed

lemma analyze_frame:
  assumes "j \<noteq> em_emul_i (pl_emulator s)"
    and "get_emul_i env (pl_emulator s) None \<noteq> Inr j"
  shows "pl_emulator (snd (analyze env intr s)) = pl_emulator s
         \<and> pl_file (snd (analyze env intr s)) j = pl_file s j"
proof (cases "get_emul_i env (pl_emulator s) None")
  case (Inl e)
  then show ?thesis by (simp add: analyze_def)
next
  case (Inr i)
  with assms(2) have ij: "i \<noteq> j" by auto
  obtain r s1 where g: "get_impl_par False s = (r, s1)" by (cases "get_impl_par False s")
  have f1: "pl_emulator s1 = pl_emulator s" "pl_file s1 j = pl_file s j"
    using get_impl_par_frame[of False s j] g assms(1) by simp_all
  show ?thesis
  proof (cases r)
    case (Some e)
    with Inr g f1 show ?thesis by (simp add: analyze_def and_then_def)
  next
    case None
    obtain r2 s2 where a: "analyze_try env intr i s1 = (r2, s2)"
      by (cases "analyze_try env intr i s1")
    have f2: "pl_emulator s2 = pl_emulator s" "pl_file s2 j = pl_file s j"
      using analyze_try_frame[of env intr i s1 j] a f1 assms(1) by simp_all
    show ?thesis
      using Inr g None a f2 ij
      by (cases r2)
         (auto simp: analyze_def and_then_def emit_def save_statistics_def split: prod.splits)
  qed
qed

lemma construct_c_from_start_frame:
  "snd (construct_c_from_start i force s)
     = s\<lparr>pl_trace := pl_trace (snd (construct_c_from_start i force s))\<rparr>"
  by (simp add: construct_c_from_start_def Let_def emit_def)

subsection \<open>Resuming a construction\<close>










subsection \<open>No construction without a plausible region\<close>

text \<open>
  Claim C7. Let \<^verbatim>\<open>construct\<close> work on an iteration \<open>i > 1\<close> that it constructs
  from the start (\<^verbatim>\<open>force\<close> is given, the iteration was never started, or
  \<^verbatim>\<open>mod_real_set\<close> is on its check list). If iteration \<open>i - 1\<close> has been analysed
  and no plausible region is recorded, \<^verbatim>\<open>RequestError\<close> is raised and the state is
  the state before the call with log messages added: nothing in memory or in the file
  has changed. If iteration \<open>i - 1\<close> has not been analysed (its \<^verbatim>\<open>n_eval_sam\<close> is
  0), the analysis runs first: an exception of the analysis is the outcome of the call,
  and if the analysis returns and no plausible region is recorded after it,
  \<^verbatim>\<open>RequestError\<close> is raised with the state the analysis left, in which the group
  of iteration \<open>i\<close> is as before the call whenever the analysis worked on another
  iteration.
\<close>

theorem construct_requires_plausible_region:
  assumes "construct_emul_i env s emul_i = Inr i"
    and "1 < i"
    and "fst (construct_c_from_start i force s)"
    and "i - 1 < length (pl_n_eval_sam s)"
  shows
    "(pl_n_eval_sam s ! (i - 1) \<noteq> 0 \<and> pl_prc s = 0 \<longrightarrow>
        construct env intr\<^sub>1 intr\<^sub>2 emul_i analyze_arg ext_sam_set ext_mod_set force s
          = (Some RequestError,
             s\<lparr>pl_trace := pl_trace (snd (construct_c_from_start i force s)) @
                 [Log ''Starting construction of emulator iteration %s.'' [i],
                  Log (''No plausible regions were found in the analysis of the ''
                       @ ''previous emulator iteration. Construction is not possible!'')
                    []]\<rparr>))
     \<and> (pl_n_eval_sam s ! (i - 1) = 0 \<longrightarrow>
          (let r = analyze env intr\<^sub>1
                     (s\<lparr>pl_trace := pl_trace (snd (construct_c_from_start i force s)) @
                         [Log ''Starting construction of emulator iteration %s.'' [i],
                          Log (''Previous emulator iteration has not been analyzed. ''
                               @ ''Performing analysis first.'') []]\<rparr>)
           in (fst r \<noteq> None \<longrightarrow>
                 construct env intr\<^sub>1 intr\<^sub>2 emul_i analyze_arg ext_sam_set ext_mod_set force s
                   = r)
            \<and> (fst r = None \<and> pl_prc (snd r) = 0 \<longrightarrow>
                 construct env intr\<^sub>1 intr\<^sub>2 emul_i analyze_arg ext_sam_set ext_mod_set force s
                   = (Some RequestError,
                      (snd r)\<lparr>pl_trace := pl_trace (snd r) @
                          [Log (''No plausible regions were found in the analysis of the ''
                                @ ''previous emulator iteration. Construction is not possible!'')
                             []]\<rparr>)
                 \<and> (em_emul_i (pl_emulator s) \<noteq> i
                      \<and> get_emul_i env (pl_emulator s) None \<noteq> Inr i \<longrightarrow>
                    pl_file (snd (construct env intr\<^sub>1 intr\<^sub>2 emul_i analyze_arg ext_sam_set
                                    ext_mod_set force s)) i = pl_file s i))))"
proof -
  let ?c = "construct env intr\<^sub>1 intr\<^sub>2 emul_i analyze_arg ext_sam_set ext_mod_set force s"
  let ?tail = "\<lambda>s2. and_then (construct_finish env i s2)
                       (\<lambda>s3. if analyze_arg then analyze env intr\<^sub>2 s3
                              else get_impl_par True s3)"
  define d where "d = snd (construct_c_from_start i force s)"
  have ds: "d = s\<lparr>pl_trace := pl_trace d\<rparr>"
    unfolding d_def by (rule construct_c_from_start_frame)
  have dn: "pl_n_eval_sam d = pl_n_eval_sam s" "pl_prc d = pl_prc s"
    by (subst ds, simp)+
  define s1 where "s1 = emit (Log ''Starting construction of emulator iteration %s.'' [i]) d"
  have s1: "s1 = s\<lparr>pl_trace := pl_trace d @
                 [Log ''Starting construction of emulator iteration %s.'' [i]]\<rparr>"
    unfolding s1_def emit_def by (subst (2) ds) simp
  have c: "?c = and_then (construct_from_start env intr\<^sub>1 i ext_sam_set ext_mod_set d) ?tail"
    using assms(3) by (simp add: construct_def assms(1) Let_def d_def)
  have i1: "i \<noteq> 1" using assms(2) by simp
  have inb: "i - 1 < length (pl_n_eval_sam s1)" using assms(4) by (simp add: s1)
  have fs: "construct_from_start env intr\<^sub>1 i ext_sam_set ext_mod_set d =
        and_then
          (if pl_n_eval_sam s1 ! (i - 1) = 0 then
             analyze env intr\<^sub>1
               (emit (Log (''Previous emulator iteration has not been analyzed. ''
                           @ ''Performing analysis first.'') []) s1)
           else (None, s1))
          (\<lambda>s2. if pl_prc s2 = 0 then
                   (Some RequestError,
                    emit (Log (''No plausible regions were found in the analysis of the ''
                               @ ''previous emulator iteration. Construction is not possible!'')
                            []) s2)
                 else
                   (case prepare_new_iteration env i (pl_emulator s2, pl_file s2) of
                      Inl e \<Rightarrow> (Some e, s2)
                    | Inr r \<Rightarrow>
                        and_then
                          (let s3 = s2\<lparr>pl_emulator := fst (snd r), pl_file := snd (snd r)\<rparr> in
                           if fst r then load_data s3 else (None, s3))
                          (\<lambda>s4. evaluate_model env i (pl_impl_sam s4) [] [] s4)))"
    unfolding construct_from_start_def s1_def[symmetric] Let_def
    using i1 inb by simp
  have p1: "?c = (Some RequestError,
             s\<lparr>pl_trace := pl_trace d @
                 [Log ''Starting construction of emulator iteration %s.'' [i],
                  Log (''No plausible regions were found in the analysis of the ''
                       @ ''previous emulator iteration. Construction is not possible!'')
                    []]\<rparr>)"
    if "pl_n_eval_sam s ! (i - 1) \<noteq> 0" "pl_prc s = 0"
  proof -
    have "construct_from_start env intr\<^sub>1 i ext_sam_set ext_mod_set d
            = (Some RequestError,
                    emit (Log (''No plausible regions were found in the analysis of the ''
                               @ ''previous emulator iteration. Construction is not possible!'')
                            []) s1)"
      unfolding fs using that by (simp add: s1 and_then_None)
    then show ?thesis
      unfolding c by (simp add: and_then_Some s1 emit_def)
  qed
  define r where "r = analyze env intr\<^sub>1
                     (s\<lparr>pl_trace := pl_trace d @
                         [Log ''Starting construction of emulator iteration %s.'' [i],
                          Log (''Previous emulator iteration has not been analyzed. ''
                               @ ''Performing analysis first.'') []]\<rparr>)"
  have e1: "emit (Log (''Previous emulator iteration has not been analyzed. ''
                           @ ''Performing analysis first.'') []) s1
            = s\<lparr>pl_trace := pl_trace d @
                         [Log ''Starting construction of emulator iteration %s.'' [i],
                          Log (''Previous emulator iteration has not been analyzed. ''
                               @ ''Performing analysis first.'') []]\<rparr>"
    by (simp add: s1 emit_def)
  have fs2: "construct_from_start env intr\<^sub>1 i ext_sam_set ext_mod_set d =
        and_then r
          (\<lambda>s2. if pl_prc s2 = 0 then
                   (Some RequestError,
                    emit (Log (''No plausible regions were found in the analysis of the ''
                               @ ''previous emulator iteration. Construction is not possible!'')
                            []) s2)
                 else
                   (case prepare_new_iteration env i (pl_emulator s2, pl_file s2) of
                      Inl e \<Rightarrow> (Some e, s2)
                    | Inr r \<Rightarrow>
                        and_then
                          (let s3 = s2\<lparr>pl_emulator := fst (snd r), pl_file := snd (snd r)\<rparr> in
                           if fst r then load_data s3 else (None, s3))
                          (\<lambda>s4. evaluate_model env i (pl_impl_sam s4) [] [] s4)))"
    if "pl_n_eval_sam s ! (i - 1) = 0"
    unfolding fs r_def e1[symmetric] using that by (simp add: s1)
  have p2: "?c = r" if a: "pl_n_eval_sam s ! (i - 1) = 0" and b: "fst r \<noteq> None"
  proof -
    obtain e s2 where r: "r = (Some e, s2)" using b by (cases r) auto
    show ?thesis unfolding c fs2[OF a] r by (simp add: and_then_Some)
  qed
  have p3: "?c = (Some RequestError,
                      (snd r)\<lparr>pl_trace := pl_trace (snd r) @
                          [Log (''No plausible regions were found in the analysis of the ''
                                @ ''previous emulator iteration. Construction is not possible!'')
                             []]\<rparr>)"
    if a: "pl_n_eval_sam s ! (i - 1) = 0" and b: "fst r = None" and z: "pl_prc (snd r) = 0"
  proof -
    obtain s2 where r: "r = (None, s2)" using b by (cases r) auto
    show ?thesis
      unfolding c fs2[OF a] r using z
      by (simp add: r and_then_None and_then_Some emit_def)
  qed
  have p4: "pl_file (snd ?c) i = pl_file s i"
    if "pl_n_eval_sam s ! (i - 1) = 0" "fst r = None" "pl_prc (snd r) = 0"
      "em_emul_i (pl_emulator s) \<noteq> i" "get_emul_i env (pl_emulator s) None \<noteq> Inr i"
  proof -
    have "pl_file (snd r) i = pl_file s i"
      unfolding r_def
      using analyze_frame[of i "s\<lparr>pl_trace := pl_trace d @
                         [Log ''Starting construction of emulator iteration %s.'' [i],
                          Log (''Previous emulator iteration has not been analyzed. ''
                               @ ''Performing analysis first.'') []]\<rparr>" env intr\<^sub>1]
        that(4,5) by simp
    then show ?thesis unfolding p3[OF that(1,2,3)] by simp
  qed
  show ?thesis
    unfolding Let_def d_def[symmetric] r_def[symmetric]
    using p1 p2 p3 p4 by blast
qed

lemma demo_no_region:
  "construct_emul_i demo_env demo_pipeline_no_region None = Inr 2"
  "fst (construct_c_from_start 2 False demo_pipeline_no_region)"
  "pl_n_eval_sam demo_pipeline_no_region = [0, 2]"
  "pl_prc demo_pipeline_no_region = 0"
  "pl_n_impl_sam demo_pipeline_no_region = [0, 0]"
  by (simp_all add: construct_emul_i_def construct_c_from_start_def emit_def Let_def
      demo_pipeline_no_region_def demo_pipeline_def demo_emulator_def)

lemma demo_unanalysed:
  "construct_emul_i demo_env demo_pipeline None = Inr 2"
  "fst (construct_c_from_start 2 False demo_pipeline)"
  "pl_n_eval_sam demo_pipeline = [0, 0]"
  "em_emul_i (pl_emulator demo_pipeline) = 1"
  by (simp_all add: construct_emul_i_def construct_c_from_start_def emit_def Let_def
      demo_pipeline_def demo_emulator_def)

lemma demo_analysis_interrupted:
  "fst (analyze demo_env (Some (0, 1)) (demo_pipeline\<lparr>pl_trace := tr\<rparr>)) = None"
  "pl_prc (snd (analyze demo_env (Some (0, 1)) (demo_pipeline\<lparr>pl_trace := tr\<rparr>))) = 0"
proof -
  let ?s = "demo_pipeline\<lparr>pl_trace := tr\<rparr>"
  let ?s1 = "snd (get_impl_par False ?s)"
  have cl: "get_impl_cut_list [1] = Inr ([1], 0)"
    by (simp add: get_impl_cut_list_def check_nneg_float_def impl_cut_loop.simps)
  have g: "fst (get_impl_par False ?s) = None"
    "pl_emulator ?s1 = demo_emulator" "pl_modellink ?s1 = demo_modellink"
    "pl_base_eval_sam ?s1 = 2" "pl_prc ?s1 = 0"
    by (simp_all add: get_impl_par_def get_impl_cut_def cl demo_pipeline_def demo_emulator_def
        Let_def)
  have g1: "get_impl_par False ?s = (None, ?s1)"
    using g(1) by (metis prod.collapse)
  have e: "get_emul_i demo_env (pl_emulator ?s) None = Inr 1"
    by (simp add: demo_env_def demo_pipeline_def demo_emulator_def)
  have es: "get_eval_sam_set demo_env ?s1 1 = Inr ([6] # [[8]])"
    unfolding get_eval_sam_set_def get_n_eval_sam_def g
    by (simp add: demo_env_def demo_emulator_def demo_modellink_def Let_def upt_conv_Cons
        del: upt_Suc)
  have at: "analyze_try demo_env (Some (0, 1)) 1 ?s1 = (Inl KeyboardInterrupt, ?s1)"
    by (rule analyze_try_interrupt_first[OF es]) (simp_all add: g demo_emulator_def)
  then have f: "fst (analyze_try demo_env (Some (0, 1)) 1 ?s1) = Inl KeyboardInterrupt" by simp
  note a = analyze_interrupted_state[OF e g1 f]
  show "fst (analyze demo_env (Some (0, 1)) ?s) = None" unfolding a by simp
  show "pl_prc (snd (analyze demo_env (Some (0, 1)) ?s)) = 0" unfolding a by (simp add: g(5))
qed

theorem construct_requires_plausible_region_witness:
  "construct_emul_i demo_env demo_pipeline_no_region None = Inr 2
   \<and> pl_n_eval_sam demo_pipeline_no_region ! 1 = 2
   \<and> pl_prc demo_pipeline_no_region = 0
   \<and> fst (construct demo_env None None None False [] [] False demo_pipeline_no_region)
       = Some RequestError
   \<and> pl_file (snd (construct demo_env None None None False [] [] False
                      demo_pipeline_no_region)) = pl_file demo_pipeline_no_region
   \<and> pl_emulator (snd (construct demo_env None None None False [] [] False
                          demo_pipeline_no_region)) = pl_emulator demo_pipeline_no_region
   \<and> construct_emul_i demo_env demo_pipeline None = Inr 2
   \<and> pl_n_eval_sam demo_pipeline ! 1 = 0
   \<and> fst (construct demo_env (Some (0, 1)) None None False [] [] False demo_pipeline)
       = Some RequestError
   \<and> pl_file (snd (construct demo_env (Some (0, 1)) None None False [] [] False
                      demo_pipeline)) 2 = pl_file demo_pipeline 2"
proof -
  let ?ca = "construct demo_env None None None False [] [] False demo_pipeline_no_region"
  let ?cb = "construct demo_env (Some (0, 1)) None None False [] [] False demo_pipeline"
  have la: "(1 :: nat) < 2" "2 - 1 < length (pl_n_eval_sam demo_pipeline_no_region)"
    by (simp_all add: demo_no_region(3))
  note ta = construct_requires_plausible_region[OF demo_no_region(1) la(1) demo_no_region(2)
      la(2), of None None False "[]" "[]"]
  have na: "pl_n_eval_sam demo_pipeline_no_region ! (2 - 1) \<noteq> 0
            \<and> pl_prc demo_pipeline_no_region = 0"
    by (simp add: demo_no_region(3,4))
  from ta na have ea: "?ca = (Some RequestError,
             demo_pipeline_no_region
             \<lparr>pl_trace := pl_trace (snd (construct_c_from_start 2 False demo_pipeline_no_region)) @
                 [Log ''Starting construction of emulator iteration %s.'' [2],
                  Log (''No plausible regions were found in the analysis of the ''
                       @ ''previous emulator iteration. Construction is not possible!'')
                    []]\<rparr>)"
    by blast
  have a: "fst ?ca = Some RequestError" "pl_file (snd ?ca) = pl_file demo_pipeline_no_region"
    "pl_emulator (snd ?ca) = pl_emulator demo_pipeline_no_region"
    unfolding ea by simp_all
  have lb: "2 - 1 < length (pl_n_eval_sam demo_pipeline)"
    by (simp add: demo_unanalysed(3))
  note tb = construct_requires_plausible_region[OF demo_unanalysed(1) la(1) demo_unanalysed(2)
      lb, of "Some (0, 1)" None False "[]" "[]"]
  define r where "r = analyze demo_env (Some (0, 1))
                     (demo_pipeline\<lparr>pl_trace := pl_trace (snd (construct_c_from_start 2 False demo_pipeline)) @
                         [Log ''Starting construction of emulator iteration %s.'' [2],
                          Log (''Previous emulator iteration has not been analyzed. ''
                               @ ''Performing analysis first.'') []]\<rparr>)"
  have nb: "pl_n_eval_sam demo_pipeline ! (2 - 1) = 0"
    by (simp add: demo_unanalysed(3))
  have rb: "fst r = None \<and> pl_prc (snd r) = 0"
    unfolding r_def by (rule conjI; rule demo_analysis_interrupted)
  have fb: "em_emul_i (pl_emulator demo_pipeline) \<noteq> 2
            \<and> get_emul_i demo_env (pl_emulator demo_pipeline) None \<noteq> Inr 2"
    by (simp add: demo_env_def demo_pipeline_def demo_emulator_def)
  from tb nb rb fb have eb: "?cb = (Some RequestError,
                      (snd r)\<lparr>pl_trace := pl_trace (snd r) @
                          [Log (''No plausible regions were found in the analysis of the ''
                                @ ''previous emulator iteration. Construction is not possible!'')
                             []]\<rparr>)"
    and b2: "pl_file (snd ?cb) 2 = pl_file demo_pipeline 2"
    unfolding Let_def r_def[symmetric] by blast+
  have b1: "fst ?cb = Some RequestError" unfolding eb by simp
  show ?thesis
    using a b1 b2 demo_no_region(1) demo_unanalysed(1)
    by (simp add: demo_no_region(3,4) demo_unanalysed(3))
qed

text \<open>
  The claim as it was stated fails on a resumed construction: the first iteration has
  been analysed without a plausible sample, the second iteration has its model
  realizations, and \<^verbatim>\<open>construct(2)\<close> completes it and writes to its group.
\<close>

theorem construct_resumed_without_region_counterexample:
  "construct_emul_i demo_env demo_pipeline_no_region_interrupted (Some 2) = Inr 2
   \<and> pl_prc demo_pipeline_no_region_interrupted = 0
   \<and> pl_n_impl_sam demo_pipeline_no_region_interrupted ! 1 = 0
   \<and> pl_n_eval_sam demo_pipeline_no_region_interrupted ! 1 = 2
   \<and> attr_prc (pl_file demo_pipeline_no_region_interrupted 1) = Some False
   \<and> fst (construct demo_env None None (Some 2) False [] [] False
            demo_pipeline_no_region_interrupted) = None
   \<and> attr_n_eval_sam (pl_file demo_pipeline_no_region_interrupted 2) = None
   \<and> attr_n_eval_sam
        (pl_file (snd (construct demo_env None None (Some 2) False [] [] False
                         demo_pipeline_no_region_interrupted)) 2) = Some 0
   \<and> attr_statistics (pl_file demo_pipeline_no_region_interrupted 2) = []
   \<and> attr_statistics
        (pl_file (snd (construct demo_env None None (Some 2) False [] [] False
                         demo_pipeline_no_region_interrupted)) 2) = [''tot_construct_time'']"
proof -
  let ?s = "demo_pipeline_no_region_interrupted"
  have d: "construct_emul_i demo_env ?s (Some 2) = Inr 2"
    by (simp add: construct_emul_i_def demo_env_def demo_pipeline_no_region_interrupted_def
        demo_emulator_def)
  have f: "\<not> fst (construct_c_from_start 2 False ?s)"
    by code_simp
  have e: "construct demo_env None None (Some 2) False [] [] False ?s
             = and_then (construct_finish demo_env 2 (snd (construct_c_from_start 2 False ?s)))
                 (get_impl_par True)"
    by (simp add: construct_def d f Let_def and_then_None)
  have a: "fst (and_then (construct_finish demo_env 2 (snd (construct_c_from_start 2 False ?s)))
                 (get_impl_par True)) = None"
    by code_simp
  have b: "attr_n_eval_sam
        (pl_file (snd (and_then (construct_finish demo_env 2
                                   (snd (construct_c_from_start 2 False ?s)))
                         (get_impl_par True))) 2) = Some 0"
    by code_simp
  have c: "attr_statistics
        (pl_file (snd (and_then (construct_finish demo_env 2
                                   (snd (construct_c_from_start 2 False ?s)))
                         (get_impl_par True))) 2) = [''tot_construct_time'']"
    by code_simp
  show ?thesis
    unfolding e a b c d
    by (simp add: demo_pipeline_no_region_interrupted_def demo_pipeline_no_region_def
        demo_pipeline_def demo_group_def)
qed

end
